theory Spec2Isabelle
  imports Main "HOL-Library.Word" "HOL-Library.Sublist"
begin

unbundle bit_operations_syntax

section \<open>The publish dialog of PushToGitHubDialog.tsx\<close>

text \<open>
  The component \<open>PushToGitHubDialog\<close> holds React state, reads the stored GitHub
  connection from local storage, asks the GitHub API whether the target repository
  exists, asks the user to confirm an update of an existing repository, calls the
  \<open>onPush\<close> callback and lists the pushed files. The model below follows the source
  function by function: the state is a record, every effect (toast, console output,
  remote call, confirmation dialog) is appended to a trace in the order the code
  performs it, and a thrown value is a value of the datatype \<open>thrown\<close>.
\<close>

subsection \<open>JavaScript strings\<close>

text \<open>
  A JavaScript string is a sequence of UTF-16 code units. String literals of the source
  are written with \<open>js\<close>, which maps the characters of an Isabelle literal to code units.
\<close>

type_synonym jsstring = "16 word list"

definition js :: "string \<Rightarrow> jsstring" where
  "js s = map (\<lambda>c. of_nat (of_char c)) s"

text \<open>
  \<open>String.prototype.trim\<close> removes the ECMAScript WhiteSpace and LineTerminator code
  units from both ends: TAB, LF, VT, FF, CR, SP, NBSP, the characters of category Zs,
  LS, PS and the byte order mark.
\<close>

definition isWhiteSpace :: "16 word \<Rightarrow> bool" where
  "isWhiteSpace c \<longleftrightarrow>
     c = 0x9 \<or> c = 0xA \<or> c = 0xB \<or> c = 0xC \<or> c = 0xD \<or> c = 0x20 \<or> c = 0xA0 \<or>
     c = 0x1680 \<or> (0x2000 \<le> c \<and> c \<le> 0x200A) \<or> c = 0x2028 \<or> c = 0x2029 \<or>
     c = 0x202F \<or> c = 0x205F \<or> c = 0x3000 \<or> c = 0xFEFF"

definition trim :: "jsstring \<Rightarrow> jsstring" where
  "trim s = rev (dropWhile isWhiteSpace (rev (dropWhile isWhiteSpace s)))"

text \<open>\<open>s.substring(0, n)\<close> for a non-negative \<open>n\<close>.\<close>

definition substring0 :: "nat \<Rightarrow> jsstring \<Rightarrow> jsstring" where
  "substring0 n s = take n s"

subsection \<open>TextEncoder\<close>

text \<open>
  \<open>new TextEncoder().encode(s)\<close> converts the code units to Unicode scalar values
  (a surrogate pair is one scalar value, a lone surrogate becomes U+FFFD) and encodes
  every scalar value in UTF-8.
\<close>

definition isHighSurrogate :: "16 word \<Rightarrow> bool" where
  "isHighSurrogate c \<longleftrightarrow> 0xD800 \<le> c \<and> c \<le> 0xDBFF"

definition isLowSurrogate :: "16 word \<Rightarrow> bool" where
  "isLowSurrogate c \<longleftrightarrow> 0xDC00 \<le> c \<and> c \<le> 0xDFFF"

fun scalarValues :: "jsstring \<Rightarrow> nat list" where
  "scalarValues [] = []"
| "scalarValues [c] =
     (if isHighSurrogate c \<or> isLowSurrogate c then [0xFFFD] else [unat c])"
| "scalarValues (c # d # cs) =
     (if isHighSurrogate c \<and> isLowSurrogate d
      then (0x10000 + (unat c - 0xD800) * 0x400 + (unat d - 0xDC00)) # scalarValues cs
      else if isHighSurrogate c \<or> isLowSurrogate c then 0xFFFD # scalarValues (d # cs)
      else unat c # scalarValues (d # cs))"

definition utf8 :: "nat \<Rightarrow> 8 word list" where
  "utf8 n =
     (if n < 0x80 then [of_nat n]
      else if n < 0x800 then
        [0xC0 OR of_nat (n div 0x40), 0x80 OR of_nat (n mod 0x40)]
      else if n < 0x10000 then
        [0xE0 OR of_nat (n div 0x1000), 0x80 OR of_nat (n div 0x40 mod 0x40),
         0x80 OR of_nat (n mod 0x40)]
      else
        [0xF0 OR of_nat (n div 0x40000), 0x80 OR of_nat (n div 0x1000 mod 0x40),
         0x80 OR of_nat (n div 0x40 mod 0x40), 0x80 OR of_nat (n mod 0x40)])"

definition TextEncoder_encode :: "jsstring \<Rightarrow> 8 word list" where
  "TextEncoder_encode s = concat (map utf8 (scalarValues s))"

subsection \<open>The workspace files and the list of pushed files\<close>

text \<open>
  \<open>workbenchStore.files.get()\<close> is a \<open>FileMap\<close>: an object whose values are a file
  (with \<open>content\<close> and \<open>isBinary\<close>), a folder, or \<open>undefined\<close>. The model keeps the
  entries in the order \<open>Object.entries\<close> yields them.
\<close>

datatype Dirent = File (content: jsstring) (isBinary: bool) | Folder

type_synonym FileMap = "(jsstring \<times> Dirent option) list"

record PushedFile =
  path :: jsstring
  size' :: nat

text \<open>The filter \<open>dirent?.type === 'file' && !dirent.isBinary\<close>.\<close>

fun isTextFile :: "jsstring \<times> Dirent option \<Rightarrow> bool" where
  "isTextFile (p, Some (File c b)) = (\<not> b)"
| "isTextFile (p, Some Folder) = False"
| "isTextFile (p, None) = False"

text \<open>\<open>(dirent as File).content || ''\<close>: a folder or a missing entry has no content.\<close>

fun contentOrEmpty :: "Dirent option \<Rightarrow> jsstring" where
  "contentOrEmpty (Some (File c b)) = (if c = [] then [] else c)"
| "contentOrEmpty (Some Folder) = []"
| "contentOrEmpty None = []"

definition selectedEntries :: "FileMap \<Rightarrow> FileMap" where
  "selectedEntries files = filter isTextFile files"

text \<open>
  \<open>extractRelativePath\<close> is imported from \<open>~/utils/diff\<close>; the model takes it as a
  parameter.
\<close>

definition filesList :: "(jsstring \<Rightarrow> jsstring) \<Rightarrow> FileMap \<Rightarrow> PushedFile list" where
  "filesList extractRelativePath files =
     map (\<lambda>(p, dirent).
            \<lparr>path = extractRelativePath p,
             size' = length (TextEncoder_encode (contentOrEmpty dirent))\<rparr>)
         (selectedEntries files)"

text \<open>The entries of type \<open>file\<close>, and those of them flagged binary.\<close>

fun isFile :: "jsstring \<times> Dirent option \<Rightarrow> bool" where
  "isFile (p, Some (File c b)) = True"
| "isFile (p, Some Folder) = False"
| "isFile (p, None) = False"

fun isBinaryFile :: "jsstring \<times> Dirent option \<Rightarrow> bool" where
  "isBinaryFile (p, Some (File c b)) = b"
| "isBinaryFile (p, Some Folder) = False"
| "isBinaryFile (p, None) = False"

subsection \<open>The stored connection, thrown values and remote responses\<close>

text \<open>
  The stored connection is the JSON object under the key \<open>github_connection\<close>; the
  component reads its \<open>user\<close> (of which it uses \<open>login\<close>, \<open>name\<close> and \<open>avatar_url\<close>) and
  its \<open>token\<close>, either of which may be missing.
\<close>

record GitHubUser =
  login :: jsstring
  name :: "jsstring option"
  avatar_url :: jsstring

record Connection =
  user :: "GitHubUser option"
  token :: "jsstring option"

text \<open>
  A value caught by a \<open>catch\<close> clause: an \<open>Error\<close> instance, carrying a numeric
  \<open>status\<close> property or none (Octokit's request errors carry the HTTP status), or a value
  that is no \<open>Error\<close> instance.
\<close>

datatype thrown = ErrorObject "int option" | NonError

datatype json =
    JNull
  | JBool bool
  | JNumber int
  | JString jsstring
  | JArray "json list"
  | JObject "(jsstring \<times> json) list"

text \<open>
  A \<open>fetch\<close> response: \<open>json\<close> is \<open>None\<close> when \<open>response.json()\<close> rejects. The Fetch
  API sets \<open>response.ok\<close> for the statuses 200 to 299.
\<close>

record Response =
  status :: int
  statusText :: jsstring
  json :: "json option"

definition ok :: "Response \<Rightarrow> bool" where
  "ok response \<longleftrightarrow> 200 \<le> status response \<and> status response \<le> 299"

subsection \<open>Effects and state\<close>

text \<open>
  The effects of the component, in the order of their arguments in the source:
  \<open>toast.error(message)\<close>; \<open>logStore.logError(message)\<close>, with the details
  \<open>{status, statusText, error}\<close> or \<open>{error}\<close>; the \<open>console.log\<close> of the token format
  \<open>{tokenPrefix, authHeader}\<close>; the \<open>console.error\<close> of an API error
  \<open>{status, statusText, errorData, requestUrl, tokenPrefix}\<close>; the \<open>console.error\<close> of
  a failed push; the \<open>fetch\<close> of a URL with its \<open>Authorization\<close> header;
  \<open>octokit.repos.get\<close> with the client's \<open>auth\<close>, the \<open>owner\<close> and the \<open>repo\<close>;
  \<open>window.confirm(message)\<close>; \<open>onPush(repoName, username, token, isPrivate)\<close>; and
  \<open>e.preventDefault()\<close>.
\<close>

datatype event =
    ToastError jsstring
  | LogError jsstring
  | LogErrorStatus jsstring int jsstring json
  | LogErrorThrown jsstring thrown
  | ConsoleLogToken jsstring jsstring
  | ConsoleErrorApi int jsstring json jsstring jsstring
  | ConsoleErrorPush thrown
  | Fetch jsstring jsstring
  | ReposGet jsstring jsstring jsstring
  | WindowConfirm jsstring
  | OnPush jsstring jsstring jsstring bool
  | PreventDefault

text \<open>
  The state: the local-storage entry \<open>github_connection\<close>, the React state of the
  component (\<open>userState\<close> is the state variable \<open>user\<close>), and the trace of effects.
\<close>

record Dialog =
  storage :: "Connection option"
  repoName :: jsstring
  isPrivate :: bool
  isLoading :: bool
  userState :: "GitHubUser option"
  recentRepos :: json
  isFetchingRepos :: bool
  showSuccessDialog :: bool
  createdRepoUrl :: jsstring
  pushedFiles :: "PushedFile list"
  trace :: "event list"

definition tell :: "event \<Rightarrow> Dialog \<Rightarrow> Dialog" where
  "tell e s = s\<lparr>trace := trace s @ [e]\<rparr>"

text \<open>
  Modelled from the spec: \<open>getLocalStorage\<close> of \<open>~/lib/persistence\<close> is not among the
  sources; the credential store's \<open>get()\<close> returns the stored connection or absent.
\<close>

definition getLocalStorage :: "Dialog \<Rightarrow> Connection option" where
  "getLocalStorage s = storage s"

text \<open>
  The test \<open>connection?.token && connection?.user\<close>: the connection exists, its token
  is a non-empty string and its user is present.
\<close>

fun credentialOf :: "Connection option \<Rightarrow> (jsstring \<times> GitHubUser) option" where
  "credentialOf None = None"
| "credentialOf (Some connection) =
     (case token connection of
        None \<Rightarrow> None
      | Some t \<Rightarrow>
          (if t = [] then None
           else (case user connection of None \<Rightarrow> None | Some u \<Rightarrow> Some (t, u))))"

text \<open>
  What the environment answers during one run: \<open>octokit.repos.get\<close> resolves (\<open>None\<close>)
  or rejects with a value; \<open>window.confirm\<close> returns a boolean; \<open>onPush\<close> rejects
  (\<open>Inl\<close>) or resolves with the repository URL; \<open>workbenchStore.files.get()\<close> yields
  the file map.
\<close>

record Env =
  lookupResult :: "thrown option"
  confirmResult :: bool
  pushResult :: "thrown + jsstring"
  files :: FileMap
  extractRelativePath :: "jsstring \<Rightarrow> jsstring"

text \<open>How a block of statements ends: normally, by \<open>return\<close>, or by throwing.\<close>

datatype completion = Normal Dialog | Return Dialog | Throw thrown Dialog

subsection \<open>handleSubmit\<close>

definition connectFirstMessage :: jsstring where
  "connectFirstMessage =
     js ''Please connect your GitHub account in Settings > Connections first''"

definition nameRequiredMessage :: jsstring where
  "nameRequiredMessage = js ''Repository name is required''"

definition pushFailedMessage :: jsstring where
  "pushFailedMessage =
     js ''Failed to push to GitHub. Please check your repository name and try again.''"

definition confirmMessage :: "jsstring \<Rightarrow> jsstring" where
  "confirmMessage r =
     js ''Repository '' @ [0x22] @ r @ [0x22] @
     js '' already exists. Do you want to update it? This will add or modify files in the repository.''"

text \<open>
  The guard of the inner \<open>catch\<close>:
  \<open>error instanceof Error && 'status' in error && error.status !== 404\<close>.
\<close>

fun rethrown :: "thrown \<Rightarrow> bool" where
  "rethrown (ErrorObject (Some st)) = (st \<noteq> 404)"
| "rethrown (ErrorObject None) = False"
| "rethrown NonError = False"

text \<open>
  The inner \<open>try\<close>/\<open>catch\<close> (lines 160 to 180): the lookup with the trimmed token as
  \<open>auth\<close>, then the confirmation when the repository exists.
\<close>

definition checkRepository :: "Env \<Rightarrow> jsstring \<Rightarrow> GitHubUser \<Rightarrow> Dialog \<Rightarrow> completion" where
  "checkRepository env tok u s =
     (let s1 = tell (ReposGet (trim tok) (login u) (repoName s)) s in
      case lookupResult env of
        None \<Rightarrow>
          (let s2 = tell (WindowConfirm (confirmMessage (repoName s))) s1 in
           if \<not> confirmResult env then Return (s2\<lparr>isLoading := False\<rparr>) else Normal s2)
      | Some error \<Rightarrow> (if rethrown error then Throw error s1 else Normal s1))"

text \<open>The body of the outer \<open>try\<close> (lines 152 to 195).\<close>

definition submitBody :: "Env \<Rightarrow> jsstring \<Rightarrow> GitHubUser \<Rightarrow> Dialog \<Rightarrow> completion" where
  "submitBody env tok u s =
     (case checkRepository env tok u s of
        Return s1 \<Rightarrow> Return s1
      | Throw error s1 \<Rightarrow> Throw error s1
      | Normal s1 \<Rightarrow>
          (let s2 = tell (OnPush (repoName s1) (login u) tok (isPrivate s1)) s1 in
           case pushResult env of
             Inl error \<Rightarrow> Throw error s2
           | Inr repoUrl \<Rightarrow>
               Normal (s2\<lparr>createdRepoUrl := repoUrl,
                           pushedFiles := filesList (extractRelativePath env) (files env),
                           showSuccessDialog := True\<rparr>)))"

text \<open>
  The handler: the two local checks, then the \<open>try\<close> with its \<open>catch\<close> (console
  output and one toast) and its \<open>finally\<close> (the loading flag is cleared however the
  body ends).
\<close>

definition handleSubmit :: "Env \<Rightarrow> Dialog \<Rightarrow> Dialog" where
  "handleSubmit env s0 =
     (let s = tell PreventDefault s0 in
      case credentialOf (getLocalStorage s) of
        None \<Rightarrow> tell (ToastError connectFirstMessage) s
      | Some (tok, u) \<Rightarrow>
          (if trim (repoName s) = [] then tell (ToastError nameRequiredMessage) s
           else
             (case submitBody env tok u (s\<lparr>isLoading := True\<rparr>) of
                Normal s1 \<Rightarrow> s1\<lparr>isLoading := False\<rparr>
              | Return s1 \<Rightarrow> s1\<lparr>isLoading := False\<rparr>
              | Throw error s1 \<Rightarrow>
                  (tell (ToastError pushFailedMessage)
                     (tell (ConsoleErrorPush error) s1))\<lparr>isLoading := False\<rparr>)))"

subsection \<open>fetchRecentRepos and the effect on opening the dialog\<close>

definition reposUrl :: jsstring where
  "reposUrl = js ''https://api.github.com/user/repos?sort=updated&per_page=5''"

definition tokenExpiredMessage :: jsstring where
  "tokenExpiredMessage = js ''GitHub token expired. Please reconnect your account.''"

definition fetchFailedLog :: jsstring where
  "fetchFailedLog = js ''Failed to fetch GitHub repositories''"

text \<open>The \<open>catch\<close> clause of \<open>fetchRecentRepos\<close>.\<close>

definition fetchCatch :: "thrown \<Rightarrow> Dialog \<Rightarrow> Dialog" where
  "fetchCatch error s =
     tell (ToastError (js ''Failed to fetch recent repositories''))
       (tell (LogErrorThrown fetchFailedLog error) s)"

text \<open>
  \<open>fetchRecentRepos\<close>, given what \<open>fetch\<close> answers: it rejects (\<open>Inl\<close>) or resolves
  with a response. A \<open>response.json()\<close> that rejects on the success path throws an
  \<open>Error\<close> without status into the \<open>catch\<close> clause; on the error path it is replaced
  by the empty object.
\<close>

definition fetchRecentRepos :: "thrown + Response \<Rightarrow> jsstring \<Rightarrow> Dialog \<Rightarrow> Dialog" where
  "fetchRecentRepos fetchResult tok s =
     (if tok = [] \<or> trim tok = [] then
        tell (ToastError (js ''GitHub authentication required''))
          (tell (LogError (js ''No GitHub token available'')) s)
      else
        (let cleanToken = trim tok;
             s1 = s\<lparr>isFetchingRepos := True\<rparr>;
             s2 = tell (ConsoleLogToken
                          (if cleanToken \<noteq> [] then substring0 4 cleanToken @ js ''...''
                           else js ''none'')
                          (substring0 10 (js ''token '' @ cleanToken) @ js ''...'')) s1;
             s3 = tell (Fetch reposUrl (js ''token '' @ cleanToken)) s2;
             s4 =
               (case fetchResult of
                  Inl error \<Rightarrow> fetchCatch error s3
                | Inr response \<Rightarrow>
                    (if \<not> ok response then
                       (let errorData =
                              (case json response of None \<Rightarrow> JObject [] | Some d \<Rightarrow> d);
                            s5 = tell (ConsoleErrorApi (status response) (statusText response)
                                         errorData reposUrl
                                         (if cleanToken \<noteq> [] then substring0 4 cleanToken
                                          else js ''none'')) s3
                        in
                          if status response = 401 then
                            (let s6 = tell (ToastError tokenExpiredMessage) s5 in
                             case getLocalStorage s6 of
                               None \<Rightarrow> s6
                             | Some connection \<Rightarrow> s6\<lparr>storage := None, userState := None\<rparr>)
                          else
                            tell (ToastError
                                    (js ''Failed to fetch repositories: '' @ statusText response))
                              (tell (LogErrorStatus fetchFailedLog (status response)
                                       (statusText response) errorData) s5))
                     else
                       (case json response of
                          None \<Rightarrow> fetchCatch (ErrorObject None) s3
                        | Some repos \<Rightarrow> s3\<lparr>recentRepos := repos\<rparr>)))
         in s4\<lparr>isFetchingRepos := False\<rparr>))"

text \<open>The \<open>useEffect\<close> that loads the connection when the dialog opens.\<close>

definition onOpen :: "thrown + Response \<Rightarrow> bool \<Rightarrow> Dialog \<Rightarrow> Dialog" where
  "onOpen fetchResult isOpen s =
     (if isOpen then
        (case credentialOf (getLocalStorage s) of
           None \<Rightarrow> s
         | Some (tok, u) \<Rightarrow>
             (let s1 = s\<lparr>userState := Some u\<rparr> in
              if trim tok \<noteq> [] then fetchRecentRepos fetchResult tok s1 else s1))
      else s)"

text \<open>
  The effects that write to a log or show something to the user; the remote calls
  (\<open>fetch\<close>, \<open>octokit.repos.get\<close>, \<open>onPush\<close>) are not among them.
\<close>

fun isShown :: "event \<Rightarrow> bool" where
  "isShown (Fetch url auth) = False"
| "isShown (ReposGet auth owner repo) = False"
| "isShown (OnPush r u t p) = False"
| "isShown PreventDefault = False"
| "isShown e = True"

subsection \<open>The byte length of UTF-8, and what a run shows\<close>

text \<open>
  The byte length of the UTF-8 encoding of a string, written from the encoding's
  table and independently of the encoder above: a code point below U+0080 takes one
  byte, one below U+0800 two, any other code point of the basic plane three (an
  unpaired surrogate is encoded as U+FFFD, three bytes), and a surrogate pair, which
  is one code point beyond the basic plane, four.
\<close>

fun utf8ByteLength :: "jsstring \<Rightarrow> nat" where
  "utf8ByteLength [] = 0"
| "utf8ByteLength [c] = (if c < 0x80 then 1 else if c < 0x800 then 2 else 3)"
| "utf8ByteLength (c # d # cs) =
     (if c < 0x80 then 1 + utf8ByteLength (d # cs)
      else if c < 0x800 then 2 + utf8ByteLength (d # cs)
      else if 0xD800 \<le> c \<and> c \<le> 0xDBFF \<and> 0xDC00 \<le> d \<and> d \<le> 0xDFFF
        then 4 + utf8ByteLength cs
      else 3 + utf8ByteLength (d # cs))"

text \<open>
  What a run lets a reader of the logs and of the screen see: the React state, which
  the component renders, and the effects that write to a log or show something. The
  stored connection, which holds the token, and the remote calls are left out.
\<close>

definition observable :: "Dialog \<Rightarrow> Dialog" where
  "observable s = s\<lparr>storage := None, trace := filter isShown (trace s)\<rparr>"

subsection \<open>Example inputs\<close>

text \<open>
  The inputs at which the theorems below are evaluated: a connected account, a
  workspace with the text file \<open>src/a.ts\<close> (content \<open>x\<close>), the binary file
  \<open>logo.png\<close> and the folder \<open>src\<close>, and a file whose content has five code units, one
  of them (U+00E9) outside ASCII.
\<close>

definition demoUser :: GitHubUser where
  "demoUser = \<lparr>login = js ''octocat'', name = None, avatar_url = []\<rparr>"

definition demoDialog :: "jsstring \<Rightarrow> jsstring \<Rightarrow> Dialog" where
  "demoDialog t r =
     \<lparr>storage = Some \<lparr>user = Some demoUser, token = Some t\<rparr>,
      repoName = r, isPrivate = True, isLoading = False, userState = Some demoUser,
      recentRepos = JArray [], isFetchingRepos = False, showSuccessDialog = False,
      createdRepoUrl = [], pushedFiles = [], trace = []\<rparr>"

definition demoExtract :: "jsstring \<Rightarrow> jsstring" where
  "demoExtract p = (if take 14 p = js ''/home/project/'' then drop 14 p else p)"

definition demoFiles :: FileMap where
  "demoFiles =
     [(js ''/home/project/src'', Some Folder),
      (js ''/home/project/src/a.ts'', Some (File (js ''x'') False)),
      (js ''/home/project/logo.png'', Some (File [] True))]"

definition demoEnv :: "thrown option \<Rightarrow> bool \<Rightarrow> thrown + jsstring \<Rightarrow> Env" where
  "demoEnv l c p =
     \<lparr>lookupResult = l, confirmResult = c, pushResult = p, files = demoFiles,
      extractRelativePath = demoExtract\<rparr>"

definition hello :: jsstring where
  "hello = [0x68, 0xE9, 0x6C, 0x6C, 0x6F]"

definition demoToken :: jsstring where
  "demoToken = js ''ghp_0123456789''"

definition okResponse :: Response where
  "okResponse = \<lparr>status = 200, statusText = js ''OK'', json = Some (JArray [])\<rparr>"

definition unauthorized :: Response where
  "unauthorized = \<lparr>status = 401, statusText = js ''Unauthorized'', json = None\<rparr>"

section \<open>Properties\<close>

subsection \<open>The list of pushed files\<close>

lemma length_selected_plus_binary:
  "length (filter isTextFile fs) + length (filter isBinaryFile fs) = length (filter isFile fs)"
proof (induction fs)
  case Nil
  show ?case by simp
next
  case (Cons e es)
  obtain p d where e: "e = (p, d)" by (cases e)
  show ?case
  proof (cases d)
    case None
    with Cons e show ?thesis by simp
  next
    case (Some x)
    with Cons e show ?thesis by (cases x) auto
  qed
qed

lemma length_filesList: "length (filesList x fs) = length (selectedEntries fs)"
  by (simp add: filesList_def)

lemma selected_is_text_file:
  assumes "i < length (selectedEntries fs)" and "selectedEntries fs ! i = (p, d)"
  shows "\<exists>c. d = Some (File c False)"
proof -
  from assms have "(p, d) \<in> set (selectedEntries fs)"
    by (metis nth_mem)
  then have "isTextFile (p, d)"
    by (simp add: selectedEntries_def)
  then show ?thesis
    by (cases "(p, d)" rule: isTextFile.cases) auto
qed

text \<open>
  C6. Among the entries of the file map that are files, exactly those whose
  \<open>isBinary\<close> flag is false are selected; the list of pushed files has one entry per
  selected file, in the order of the file map; with N files of which K are binary it
  has N - K entries.
\<close>

theorem filesList_excludes_exactly_binary_files:
  "(\<forall>p c b. (p, Some (File c b)) \<in> set fs \<longrightarrow>
       ((p, Some (File c b)) \<in> set (selectedEntries fs)) = (\<not> b))
   \<and> map path (filesList x fs) = map (\<lambda>e. x (fst e)) (selectedEntries fs)
   \<and> subseq (selectedEntries fs) fs
   \<and> length (filter isBinaryFile fs) \<le> length (filter isFile fs)
   \<and> length (filesList x fs) = length (filter isFile fs) - length (filter isBinaryFile fs)"
proof -
  have sel: "\<forall>p c b. (p, Some (File c b)) \<in> set fs \<longrightarrow>
       ((p, Some (File c b)) \<in> set (selectedEntries fs)) = (\<not> b)"
    by (simp add: selectedEntries_def)
  have paths: "map path (filesList x fs) = map (\<lambda>e. x (fst e)) (selectedEntries fs)"
    by (simp add: filesList_def split_def)
  have ord: "subseq (selectedEntries fs) fs"
    by (simp add: selectedEntries_def)
  have cnt: "length (filesList x fs) + length (filter isBinaryFile fs) = length (filter isFile fs)"
    using length_selected_plus_binary [of fs]
    by (simp add: length_filesList selectedEntries_def)
  from sel paths ord cnt show ?thesis
    by simp
qed

theorem filesList_excludes_exactly_binary_files_witness:
  "(js ''/home/project/src/a.ts'', Some (File (js ''x'') False)) \<in> set demoFiles
   \<and> (js ''/home/project/src/a.ts'', Some (File (js ''x'') False)) \<in> set (selectedEntries demoFiles)
   \<and> (js ''/home/project/logo.png'', Some (File [] True)) \<in> set demoFiles
   \<and> (js ''/home/project/logo.png'', Some (File [] True)) \<notin> set (selectedEntries demoFiles)
   \<and> length (filter isFile demoFiles) = 2
   \<and> length (filter isBinaryFile demoFiles) = 1
   \<and> length (filesList demoExtract demoFiles) = 1"
proof -
  have a: "(js ''/home/project/src/a.ts'', Some (File (js ''x'') False)) \<in> set demoFiles"
    by (simp add: demoFiles_def)
  have b: "(js ''/home/project/logo.png'', Some (File [] True)) \<in> set demoFiles"
    by (simp add: demoFiles_def)
  have n: "length (filter isFile demoFiles) = 2"
    by (simp add: demoFiles_def)
  have k: "length (filter isBinaryFile demoFiles) = 1"
    by (simp add: demoFiles_def)
  note t = filesList_excludes_exactly_binary_files [of demoFiles demoExtract]
  from t a have a': "(js ''/home/project/src/a.ts'', Some (File (js ''x'') False)) \<in> set (selectedEntries demoFiles)"
    by blast
  from t b have b': "(js ''/home/project/logo.png'', Some (File [] True)) \<notin> set (selectedEntries demoFiles)"
    by blast
  from t n k have l: "length (filesList demoExtract demoFiles) = 1"
    by simp
  from a a' b b' n k l show ?thesis
    by blast
qed

lemma length_utf8:
  "length (utf8 n) =
     (if n < 0x80 then 1 else if n < 0x800 then 2 else if n < 0x10000 then 3 else 4)"
  by (simp add: utf8_def)

lemma TextEncoder_hello: "TextEncoder_encode hello = [0x68, 0xC3, 0xA9, 0x6C, 0x6C, 0x6F]"
  by (simp add: hello_def TextEncoder_encode_def utf8_def isHighSurrogate_def isLowSurrogate_def)

lemma unit_below: "unat (c :: 16 word) < 0x10000"
  using unsigned_less [of c] by simp

lemma length_utf8_unit:
  "length (utf8 (unat (c :: 16 word))) = (if c < 0x80 then 1 else if c < 0x800 then 2 else 3)"
  using unit_below [of c] by (simp add: utf8_def word_less_nat_alt)

lemma length_utf8_replacement: "length (utf8 0xFFFD) = 3"
  by (simp add: utf8_def)

lemma length_utf8_pair: "0x10000 \<le> n \<Longrightarrow> length (utf8 n) = 4"
  by (simp add: utf8_def)

lemma surrogate_not_small:
  "isHighSurrogate c \<or> isLowSurrogate c \<Longrightarrow> \<not> c < 0x80 \<and> \<not> c < 0x800"
  by (auto simp: isHighSurrogate_def isLowSurrogate_def word_less_nat_alt word_le_nat_alt)

lemma encode_Cons:
  "scalarValues s = n # scalarValues r \<Longrightarrow>
   length (TextEncoder_encode s) = length (utf8 n) + length (TextEncoder_encode r)"
  by (simp add: TextEncoder_encode_def)

text \<open>The encoder produces as many bytes as the table of UTF-8 says.\<close>

lemma length_TextEncoder_encode: "length (TextEncoder_encode s) = utf8ByteLength s"
proof (induction s rule: scalarValues.induct)
  case 1
  show ?case by (simp add: TextEncoder_encode_def)
next
  case (2 c)
  show ?case
  proof (cases "isHighSurrogate c \<or> isLowSurrogate c")
    case True
    with surrogate_not_small [OF True] show ?thesis
      by (simp add: TextEncoder_encode_def length_utf8_replacement)
  next
    case False
    then show ?thesis
      by (simp add: TextEncoder_encode_def length_utf8_unit)
  qed
next
  case (3 c d cs)
  show ?case
  proof (cases "isHighSurrogate c \<and> isLowSurrogate d")
    case True
    then have sv: "scalarValues (c # d # cs) =
        (0x10000 + (unat c - 0xD800) * 0x400 + (unat d - 0xDC00)) # scalarValues cs"
      by simp
    from True have "\<not> c < 0x80 \<and> \<not> c < 0x800"
      using surrogate_not_small [of c] by simp
    moreover from True have "0xD800 \<le> c \<and> c \<le> 0xDBFF \<and> 0xDC00 \<le> d \<and> d \<le> 0xDFFF"
      by (simp add: isHighSurrogate_def isLowSurrogate_def)
    ultimately have bl: "utf8ByteLength (c # d # cs) = 4 + utf8ByteLength cs"
      by simp
    have w: "length (utf8 (0x10000 + (unat c - 0xD800) * 0x400 + (unat d - 0xDC00))) = 4"
      by (rule length_utf8_pair) simp
    from True 3(1) have ih: "length (TextEncoder_encode cs) = utf8ByteLength cs"
      by simp
    from encode_Cons [OF sv] w ih bl show ?thesis
      by (simp only:)
  next
    case pairFalse: False
    then have np: "(0xD800 \<le> c \<and> c \<le> 0xDBFF \<and> 0xDC00 \<le> d \<and> d \<le> 0xDFFF) = False"
      by (simp add: isHighSurrogate_def isLowSurrogate_def)
    show ?thesis
    proof (cases "isHighSurrogate c \<or> isLowSurrogate c")
      case True
      with pairFalse have sv: "scalarValues (c # d # cs) = 0xFFFD # scalarValues (d # cs)"
        by simp
      from surrogate_not_small [OF True]
      have bl: "utf8ByteLength (c # d # cs) = 3 + utf8ByteLength (d # cs)"
        by (simp add: np)
      from True pairFalse 3(2) have ih: "length (TextEncoder_encode (d # cs)) = utf8ByteLength (d # cs)"
        by simp
      from encode_Cons [OF sv] length_utf8_replacement ih bl show ?thesis
        by (simp only:)
    next
      case False
      with pairFalse have sv: "scalarValues (c # d # cs) = unat c # scalarValues (d # cs)"
        by simp
      have bl: "utf8ByteLength (c # d # cs) =
          (if c < 0x80 then 1 else if c < 0x800 then 2 else 3) + utf8ByteLength (d # cs)"
        by (simp add: np)
      from False pairFalse 3(3) have ih: "length (TextEncoder_encode (d # cs)) = utf8ByteLength (d # cs)"
        by simp
      from encode_Cons [OF sv] length_utf8_unit [of c] ih bl show ?thesis
        by (simp only:)
    qed
  qed
qed

text \<open>
  C7. Every selected entry is a text file, and the size recorded for it is the byte
  length of the UTF-8 encoding of its content, as the table of UTF-8 gives it: one to
  four bytes for each code point, not one for each character. The path recorded is the
  relative path of its key.
\<close>

theorem pushed_size_is_utf8_byte_length:
  assumes "i < length (selectedEntries fs)" and "selectedEntries fs ! i = (p, d)"
  shows "\<exists>c. d = Some (File c False) \<and>
           filesList x fs ! i = \<lparr>path = x p, size' = utf8ByteLength c\<rparr>"
proof -
  from assms obtain c where d: "d = Some (File c False)"
    using selected_is_text_file by blast
  from assms have "filesList x fs ! i =
      \<lparr>path = x p, size' = length (TextEncoder_encode (contentOrEmpty d))\<rparr>"
    by (simp add: filesList_def)
  with d show ?thesis
    by (simp add: length_TextEncoder_encode)
qed

theorem pushed_size_is_utf8_byte_length_witness:
  "0 < length (selectedEntries [(js ''a.txt'', Some (File hello False))])
   \<and> selectedEntries [(js ''a.txt'', Some (File hello False))] ! 0 = (js ''a.txt'', Some (File hello False))
   \<and> filesList demoExtract [(js ''a.txt'', Some (File hello False))] ! 0
       = \<lparr>path = demoExtract (js ''a.txt''), size' = 6\<rparr>
   \<and> length hello = 5"
proof -
  have h1: "0 < length (selectedEntries [(js ''a.txt'', Some (File hello False))])"
    by (simp add: selectedEntries_def)
  have h2: "selectedEntries [(js ''a.txt'', Some (File hello False))] ! 0
              = (js ''a.txt'', Some (File hello False))"
    by (simp add: selectedEntries_def)
  from pushed_size_is_utf8_byte_length [OF h1 h2, of demoExtract]
  have "filesList demoExtract [(js ''a.txt'', Some (File hello False))] ! 0
       = \<lparr>path = demoExtract (js ''a.txt''), size' = utf8ByteLength hello\<rparr>"
    by simp
  moreover have "utf8ByteLength hello = 6"
    by (simp add: hello_def)
  ultimately have "filesList demoExtract [(js ''a.txt'', Some (File hello False))] ! 0
       = \<lparr>path = demoExtract (js ''a.txt''), size' = 6\<rparr>"
    by simp
  with h1 h2 show ?thesis
    by (simp add: hello_def)
qed

subsection \<open>The runs of handleSubmit\<close>

lemmas submit_defs = handleSubmit_def submitBody_def checkRepository_def tell_def
  getLocalStorage_def Let_def

lemma submit_without_credential:
  assumes "credentialOf (storage s) = None"
  shows "handleSubmit env s =
           s\<lparr>trace := trace s @ [PreventDefault, ToastError connectFirstMessage]\<rparr>"
  using assms by (simp add: submit_defs)

lemma submit_without_name:
  assumes "credentialOf (storage s) = Some (tok, u)" and "trim (repoName s) = []"
  shows "handleSubmit env s =
           s\<lparr>trace := trace s @ [PreventDefault, ToastError nameRequiredMessage]\<rparr>"
  using assms by (simp add: submit_defs)

lemma submit_declined:
  assumes "credentialOf (storage s) = Some (tok, u)" and "trim (repoName s) \<noteq> []"
    and "lookupResult env = None" and "\<not> confirmResult env"
  shows "handleSubmit env s =
           s\<lparr>isLoading := False,
             trace := trace s @ [PreventDefault, ReposGet (trim tok) (login u) (repoName s),
                        WindowConfirm (confirmMessage (repoName s))]\<rparr>"
  using assms by (simp add: submit_defs)

lemma submit_confirmed:
  assumes "credentialOf (storage s) = Some (tok, u)" and "trim (repoName s) \<noteq> []"
    and "lookupResult env = None" and "confirmResult env"
  shows "trace (handleSubmit env s) =
           trace s @ [PreventDefault, ReposGet (trim tok) (login u) (repoName s),
                      WindowConfirm (confirmMessage (repoName s)),
                      OnPush (repoName s) (login u) tok (isPrivate s)] @
             (case pushResult env of
                Inl e \<Rightarrow> [ConsoleErrorPush e, ToastError pushFailedMessage]
              | Inr url \<Rightarrow> [])"
  using assms by (simp add: submit_defs split: sum.splits)

lemma submit_lookup_rethrown:
  assumes "credentialOf (storage s) = Some (tok, u)" and "trim (repoName s) \<noteq> []"
    and "lookupResult env = Some e" and "rethrown e"
  shows "handleSubmit env s =
           s\<lparr>isLoading := False,
             trace := trace s @ [PreventDefault, ReposGet (trim tok) (login u) (repoName s),
                      ConsoleErrorPush e, ToastError pushFailedMessage]\<rparr>"
  using assms by (simp add: submit_defs)

lemma submit_lookup_swallowed:
  assumes "credentialOf (storage s) = Some (tok, u)" and "trim (repoName s) \<noteq> []"
    and "lookupResult env = Some e" and "\<not> rethrown e"
  shows "trace (handleSubmit env s) =
           trace s @ [PreventDefault, ReposGet (trim tok) (login u) (repoName s),
                      OnPush (repoName s) (login u) tok (isPrivate s)] @
             (case pushResult env of
                Inl e \<Rightarrow> [ConsoleErrorPush e, ToastError pushFailedMessage]
              | Inr url \<Rightarrow> [])"
  using assms by (simp add: submit_defs split: sum.splits)

lemma submit_flags:
  assumes "credentialOf (storage s) = Some (tok, u)" and "trim (repoName s) \<noteq> []"
  shows "\<not> isLoading (handleSubmit env s)"
    and "storage (handleSubmit env s) = storage s"
  using assms
  by (simp_all add: submit_defs split: sum.splits option.splits)

lemma submit_failed_flags:
  assumes "credentialOf (storage s) = Some (tok, u)" and "trim (repoName s) \<noteq> []"
    and "pushResult env = Inl e"
  shows "showSuccessDialog (handleSubmit env s) = showSuccessDialog s"
  using assms
  by (simp add: submit_defs split: sum.splits option.splits)

subsection \<open>Evaluation of the example inputs\<close>

lemma trim_demo: "trim (js ''demo'') = js ''demo''"
  by (simp add: js_def trim_def isWhiteSpace_def)

lemma trim_demo_spaces: "trim (js '' demo '') = js ''demo''"
  by (simp add: js_def trim_def isWhiteSpace_def)

lemma trim_blank: "trim (js ''   '') = []"
  by (simp add: js_def trim_def isWhiteSpace_def)

lemma trim_demoToken: "trim demoToken = demoToken"
  by (simp add: demoToken_def js_def trim_def isWhiteSpace_def)

lemma js_nonempty: "js (c # cs) \<noteq> []"
  by (simp add: js_def)

lemma demo_credential:
  "t \<noteq> [] \<Longrightarrow> credentialOf (storage (demoDialog t r)) = Some (t, demoUser)"
  by (simp add: demoDialog_def)

lemma demo_fields:
  "repoName (demoDialog t r) = r" "isPrivate (demoDialog t r) = True"
  "trace (demoDialog t r) = []" "login demoUser = js ''octocat''"
  "storage (demoDialog t r) = Some \<lparr>user = Some demoUser, token = Some t\<rparr>"
  by (simp_all add: demoDialog_def demoUser_def)

lemma demoEnv_fields:
  "lookupResult (demoEnv l c p) = l" "confirmResult (demoEnv l c p) = c"
  "pushResult (demoEnv l c p) = p"
  by (simp_all add: demoEnv_def)

lemma demoToken_nonempty: "demoToken \<noteq> []"
  by (simp add: demoToken_def js_def)

subsection \<open>The lookup, the confirmation and the push\<close>

text \<open>
  C1. With a stored credential and a non-blank name: when the lookup fails with status
  404 the inner block completes normally without a confirmation and the push follows
  the lookup directly; when it fails with any other status the inner block throws that
  error, the push is not called, and the handler ends in its catch clause.
\<close>

theorem lookup_404_proceeds_other_status_propagates:
  assumes "credentialOf (storage s) = Some (tok, u)" and "trim (repoName s) \<noteq> []"
  shows "(lookupResult env = Some (ErrorObject (Some 404)) \<longrightarrow>
            checkRepository env tok u s =
              Normal (tell (ReposGet (trim tok) (login u) (repoName s)) s)
            \<and> trace (handleSubmit env s) =
                trace s @ [PreventDefault, ReposGet (trim tok) (login u) (repoName s),
                           OnPush (repoName s) (login u) tok (isPrivate s)] @
                  (case pushResult env of
                     Inl e \<Rightarrow> [ConsoleErrorPush e, ToastError pushFailedMessage]
                   | Inr url \<Rightarrow> []))
       \<and> (\<forall>st. st \<noteq> 404 \<and> lookupResult env = Some (ErrorObject (Some st)) \<longrightarrow>
            checkRepository env tok u s =
              Throw (ErrorObject (Some st)) (tell (ReposGet (trim tok) (login u) (repoName s)) s)
            \<and> handleSubmit env s =
                s\<lparr>isLoading := False,
                  trace := trace s @ [PreventDefault, ReposGet (trim tok) (login u) (repoName s),
                             ConsoleErrorPush (ErrorObject (Some st)),
                             ToastError pushFailedMessage]\<rparr>)"
proof (intro conjI impI allI)
  assume l: "lookupResult env = Some (ErrorObject (Some 404))"
  then show "checkRepository env tok u s =
      Normal (tell (ReposGet (trim tok) (login u) (repoName s)) s)"
    by (simp add: checkRepository_def)
  from l show "trace (handleSubmit env s) =
      trace s @ [PreventDefault, ReposGet (trim tok) (login u) (repoName s),
                 OnPush (repoName s) (login u) tok (isPrivate s)] @
        (case pushResult env of
           Inl e \<Rightarrow> [ConsoleErrorPush e, ToastError pushFailedMessage]
         | Inr url \<Rightarrow> [])"
    using submit_lookup_swallowed [OF assms, of env "ErrorObject (Some 404)"] by simp
next
  fix st
  assume l: "st \<noteq> 404 \<and> lookupResult env = Some (ErrorObject (Some st))"
  then show "checkRepository env tok u s =
      Throw (ErrorObject (Some st)) (tell (ReposGet (trim tok) (login u) (repoName s)) s)"
    by (simp add: checkRepository_def)
  from l show "handleSubmit env s =
      s\<lparr>isLoading := False,
        trace := trace s @ [PreventDefault, ReposGet (trim tok) (login u) (repoName s),
                   ConsoleErrorPush (ErrorObject (Some st)), ToastError pushFailedMessage]\<rparr>"
    using submit_lookup_rethrown [OF assms, of env "ErrorObject (Some st)"] by simp
qed

theorem lookup_404_proceeds_other_status_propagates_witness:
  "credentialOf (storage (demoDialog demoToken (js ''demo''))) = Some (demoToken, demoUser)
   \<and> trim (repoName (demoDialog demoToken (js ''demo''))) \<noteq> []
   \<and> trace (handleSubmit (demoEnv (Some (ErrorObject (Some 404))) False (Inr (js ''url'')))
        (demoDialog demoToken (js ''demo'')))
       = [PreventDefault, ReposGet demoToken (js ''octocat'') (js ''demo''),
          OnPush (js ''demo'') (js ''octocat'') demoToken True]
   \<and> trace (handleSubmit (demoEnv (Some (ErrorObject (Some 403))) False (Inr (js ''url'')))
        (demoDialog demoToken (js ''demo'')))
       = [PreventDefault, ReposGet demoToken (js ''octocat'') (js ''demo''),
          ConsoleErrorPush (ErrorObject (Some 403)), ToastError pushFailedMessage]"
proof -
  have c: "credentialOf (storage (demoDialog demoToken (js ''demo''))) = Some (demoToken, demoUser)"
    by (simp add: demo_credential demoToken_nonempty)
  have n: "trim (repoName (demoDialog demoToken (js ''demo''))) \<noteq> []"
    by (simp add: demo_fields trim_demo js_nonempty)
  have a: "trace (handleSubmit (demoEnv (Some (ErrorObject (Some 404))) False (Inr (js ''url'')))
        (demoDialog demoToken (js ''demo'')))
       = [PreventDefault, ReposGet demoToken (js ''octocat'') (js ''demo''),
          OnPush (js ''demo'') (js ''octocat'') demoToken True]"
    using lookup_404_proceeds_other_status_propagates
      [OF c n, of "demoEnv (Some (ErrorObject (Some 404))) False (Inr (js ''url''))"]
    by (simp add: demo_fields demoEnv_fields trim_demoToken)
  have b: "trace (handleSubmit (demoEnv (Some (ErrorObject (Some 403))) False (Inr (js ''url'')))
        (demoDialog demoToken (js ''demo'')))
       = [PreventDefault, ReposGet demoToken (js ''octocat'') (js ''demo''),
          ConsoleErrorPush (ErrorObject (Some 403)), ToastError pushFailedMessage]"
    using lookup_404_proceeds_other_status_propagates
      [OF c n, of "demoEnv (Some (ErrorObject (Some 403))) False (Inr (js ''url''))"]
    by (simp add: demo_fields demoEnv_fields trim_demoToken)
  from c n a b show ?thesis
    by blast
qed

text \<open>
  C2. With a stored credential and a non-blank name, when the lookup succeeds and the
  confirmation returns false, the handler returns after the confirmation: its only
  effects are the lookup and the confirmation dialog, there is no toast and no call of
  \<open>onPush\<close>, the success dialog is not shown and the loading flag is cleared.
\<close>

theorem declined_confirmation_cancels_without_push:
  assumes "credentialOf (storage s) = Some (tok, u)" and "trim (repoName s) \<noteq> []"
    and "lookupResult env = None" and "\<not> confirmResult env"
  shows "handleSubmit env s =
           s\<lparr>isLoading := False,
             trace := trace s @ [PreventDefault, ReposGet (trim tok) (login u) (repoName s),
                        WindowConfirm (confirmMessage (repoName s))]\<rparr>
         \<and> submitBody env tok u s =
             Return (s\<lparr>isLoading := False,
                       trace := trace s @ [ReposGet (trim tok) (login u) (repoName s),
                                  WindowConfirm (confirmMessage (repoName s))]\<rparr>)"
  using assms submit_declined [OF assms]
  by (simp add: submitBody_def checkRepository_def tell_def Let_def)

theorem declined_confirmation_cancels_without_push_witness:
  "credentialOf (storage (demoDialog demoToken (js ''demo''))) = Some (demoToken, demoUser)
   \<and> trim (repoName (demoDialog demoToken (js ''demo''))) \<noteq> []
   \<and> lookupResult (demoEnv None False (Inr (js ''url''))) = None
   \<and> \<not> confirmResult (demoEnv None False (Inr (js ''url'')))
   \<and> trace (handleSubmit (demoEnv None False (Inr (js ''url''))) (demoDialog demoToken (js ''demo'')))
       = [PreventDefault, ReposGet demoToken (js ''octocat'') (js ''demo''),
          WindowConfirm (confirmMessage (js ''demo''))]
   \<and> \<not> showSuccessDialog
         (handleSubmit (demoEnv None False (Inr (js ''url''))) (demoDialog demoToken (js ''demo'')))"
proof -
  have c: "credentialOf (storage (demoDialog demoToken (js ''demo''))) = Some (demoToken, demoUser)"
    by (simp add: demo_credential demoToken_nonempty)
  have n: "trim (repoName (demoDialog demoToken (js ''demo''))) \<noteq> []"
    by (simp add: demo_fields trim_demo js_nonempty)
  have l: "lookupResult (demoEnv None False (Inr (js ''url''))) = None"
    by (simp add: demoEnv_fields)
  have d: "\<not> confirmResult (demoEnv None False (Inr (js ''url'')))"
    by (simp add: demoEnv_fields)
  note t = declined_confirmation_cancels_without_push [OF c n l d]
  from t have a: "trace (handleSubmit (demoEnv None False (Inr (js ''url'')))
        (demoDialog demoToken (js ''demo'')))
       = [PreventDefault, ReposGet demoToken (js ''octocat'') (js ''demo''),
          WindowConfirm (confirmMessage (js ''demo''))]"
    by (simp add: demo_fields trim_demoToken)
  from t have b: "\<not> showSuccessDialog
         (handleSubmit (demoEnv None False (Inr (js ''url''))) (demoDialog demoToken (js ''demo'')))"
    by (simp add: demoDialog_def)
  from c n l d a b show ?thesis
    by blast
qed

text \<open>
  C9. With a stored credential and a non-blank name, when the lookup throws a value
  that is no \<open>Error\<close> instance, or an \<open>Error\<close> without a \<open>status\<close> property, the inner
  block completes normally, the push is called, and the handler behaves exactly as it
  does for a lookup that fails with status 404.
\<close>

theorem lookup_error_without_status_is_swallowed:
  assumes "credentialOf (storage s) = Some (tok, u)" and "trim (repoName s) \<noteq> []"
    and "lookupResult env = Some e" and "e = NonError \<or> e = ErrorObject None"
  shows "checkRepository env tok u s =
           Normal (tell (ReposGet (trim tok) (login u) (repoName s)) s)
         \<and> trace (handleSubmit env s) =
             trace s @ [PreventDefault, ReposGet (trim tok) (login u) (repoName s),
                        OnPush (repoName s) (login u) tok (isPrivate s)] @
               (case pushResult env of
                  Inl e \<Rightarrow> [ConsoleErrorPush e, ToastError pushFailedMessage]
                | Inr url \<Rightarrow> [])
         \<and> handleSubmit env s =
             handleSubmit (env\<lparr>lookupResult := Some (ErrorObject (Some 404))\<rparr>) s"
proof -
  from assms(4) have r: "\<not> rethrown e"
    by auto
  from assms(3) r have 1: "checkRepository env tok u s =
      Normal (tell (ReposGet (trim tok) (login u) (repoName s)) s)"
    by (simp add: checkRepository_def)
  note 2 = submit_lookup_swallowed [OF assms(1,2,3) r]
  from assms(1,2,3) r have 3: "handleSubmit env s =
      handleSubmit (env\<lparr>lookupResult := Some (ErrorObject (Some 404))\<rparr>) s"
    by (simp add: submit_defs split: sum.splits)
  from 1 2 3 show ?thesis
    by simp
qed

theorem lookup_error_without_status_is_swallowed_witness:
  "credentialOf (storage (demoDialog demoToken (js ''demo''))) = Some (demoToken, demoUser)
   \<and> trim (repoName (demoDialog demoToken (js ''demo''))) \<noteq> []
   \<and> lookupResult (demoEnv (Some NonError) False (Inr (js ''url''))) = Some NonError
   \<and> trace (handleSubmit (demoEnv (Some NonError) False (Inr (js ''url'')))
        (demoDialog demoToken (js ''demo'')))
       = [PreventDefault, ReposGet demoToken (js ''octocat'') (js ''demo''),
          OnPush (js ''demo'') (js ''octocat'') demoToken True]"
proof -
  have c: "credentialOf (storage (demoDialog demoToken (js ''demo''))) = Some (demoToken, demoUser)"
    by (simp add: demo_credential demoToken_nonempty)
  have n: "trim (repoName (demoDialog demoToken (js ''demo''))) \<noteq> []"
    by (simp add: demo_fields trim_demo js_nonempty)
  have l: "lookupResult (demoEnv (Some NonError) False (Inr (js ''url''))) = Some NonError"
    by (simp add: demoEnv_fields)
  have e: "NonError = NonError \<or> NonError = ErrorObject None"
    by simp
  from lookup_error_without_status_is_swallowed [OF c n l e, THEN conjunct2, THEN conjunct1]
  have a: "trace (handleSubmit (demoEnv (Some NonError) False (Inr (js ''url'')))
        (demoDialog demoToken (js ''demo'')))
       = [PreventDefault, ReposGet demoToken (js ''octocat'') (js ''demo''),
          OnPush (js ''demo'') (js ''octocat'') demoToken True]"
    by (simp add: demo_fields demoEnv_fields trim_demoToken)
  from c n l a show ?thesis
    by blast
qed

lemma messages_differ:
  "nameRequiredMessage \<noteq> pushFailedMessage"
  by (simp add: nameRequiredMessage_def pushFailedMessage_def js_def)

text \<open>
  C10. With a stored credential, a name whose trimmed form is non-empty passes the
  name check (no toast asks for a name), and the name as typed, untrimmed, is the
  \<open>repo\<close> of the lookup and the first argument of every call of \<open>onPush\<close>; the call is
  made whenever the lookup succeeds and is confirmed or its error is not rethrown.
\<close>

theorem untrimmed_name_is_passed_verbatim:
  assumes "credentialOf (storage s) = Some (tok, u)" and "trim (repoName s) \<noteq> []"
  shows "\<exists>rest.
           trace (handleSubmit env s) =
             trace s @ [PreventDefault, ReposGet (trim tok) (login u) (repoName s)] @ rest
           \<and> ToastError nameRequiredMessage \<notin> set rest
           \<and> (\<forall>r n t p. OnPush r n t p \<in> set rest \<longrightarrow> r = repoName s)
           \<and> ((lookupResult env = None \<and> confirmResult env)
                \<or> (\<exists>e. lookupResult env = Some e \<and> \<not> rethrown e) \<longrightarrow>
              OnPush (repoName s) (login u) tok (isPrivate s) \<in> set rest)"
proof (cases "lookupResult env")
  case None
  show ?thesis
  proof (cases "confirmResult env")
    case True
    from submit_confirmed [OF assms None True] show ?thesis
      by (auto simp: messages_differ split: sum.splits)
  next
    case False
    from submit_declined [OF assms None False] None False show ?thesis
      by simp
  qed
next
  case (Some e)
  show ?thesis
  proof (cases "rethrown e")
    case True
    from submit_lookup_rethrown [OF assms Some True] Some True show ?thesis
      by (simp add: messages_differ)
  next
    case False
    from submit_lookup_swallowed [OF assms Some False] show ?thesis
      by (auto simp: messages_differ split: sum.splits)
  qed
qed

theorem untrimmed_name_is_passed_verbatim_witness:
  "credentialOf (storage (demoDialog demoToken (js '' demo ''))) = Some (demoToken, demoUser)
   \<and> trim (repoName (demoDialog demoToken (js '' demo ''))) \<noteq> []
   \<and> js '' demo '' \<noteq> trim (js '' demo '')
   \<and> ReposGet demoToken (js ''octocat'') (js '' demo '')
        \<in> set (trace (handleSubmit (demoEnv (Some (ErrorObject (Some 404))) False (Inr (js ''url'')))
                  (demoDialog demoToken (js '' demo ''))))
   \<and> OnPush (js '' demo '') (js ''octocat'') demoToken True
        \<in> set (trace (handleSubmit (demoEnv (Some (ErrorObject (Some 404))) False (Inr (js ''url'')))
                  (demoDialog demoToken (js '' demo ''))))"
proof -
  have c: "credentialOf (storage (demoDialog demoToken (js '' demo ''))) = Some (demoToken, demoUser)"
    by (simp add: demo_credential demoToken_nonempty)
  have n: "trim (repoName (demoDialog demoToken (js '' demo ''))) \<noteq> []"
    by (simp add: demo_fields trim_demo_spaces js_nonempty)
  have d: "js '' demo '' \<noteq> trim (js '' demo '')"
    by (simp add: trim_demo_spaces) (simp add: js_def)
  have l: "\<exists>e. lookupResult (demoEnv (Some (ErrorObject (Some 404))) False (Inr (js ''url''))) = Some e
             \<and> \<not> rethrown e"
    by (simp add: demoEnv_fields)
  from untrimmed_name_is_passed_verbatim
         [OF c n, of "demoEnv (Some (ErrorObject (Some 404))) False (Inr (js ''url''))"] l
  obtain rest where
    t: "trace (handleSubmit (demoEnv (Some (ErrorObject (Some 404))) False (Inr (js ''url'')))
                  (demoDialog demoToken (js '' demo '')))
         = [PreventDefault, ReposGet demoToken (js ''octocat'') (js '' demo '')] @ rest"
    and p: "OnPush (js '' demo '') (js ''octocat'') demoToken True \<in> set rest"
    by (auto simp: demo_fields trim_demoToken)
  from t p c n d show ?thesis
    by simp
qed

subsection \<open>Failures of the remote calls\<close>

text \<open>
  C4, as amended. With a stored credential and a non-blank name, an error other than
  an authentication failure (status 401) that is thrown by \<open>onPush\<close>, or an \<open>Error\<close>
  with a status other than 404 and 401 thrown by the lookup, is caught by the handler,
  written to the console and followed by exactly one error toast; the toast carries
  the same fixed message whatever the error was. The success dialog is not shown and
  the loading flag is cleared. The case of status 401 is left aside.
\<close>

theorem remote_failure_gives_one_generic_toast:
  assumes "credentialOf (storage s) = Some (tok, u)" and "trim (repoName s) \<noteq> []"
    and "e \<noteq> ErrorObject (Some 401)"
    and "(lookupResult env = Some e \<and> rethrown e)
         \<or> (((lookupResult env = None \<and> confirmResult env)
               \<or> (\<exists>e'. lookupResult env = Some e' \<and> \<not> rethrown e'))
             \<and> pushResult env = Inl e)"
  shows "\<exists>pre.
           trace (handleSubmit env s) =
             trace s @ pre @ [ConsoleErrorPush e, ToastError pushFailedMessage]
           \<and> (\<forall>m. ToastError m \<notin> set pre)
           \<and> \<not> isLoading (handleSubmit env s)
           \<and> showSuccessDialog (handleSubmit env s) = showSuccessDialog s"
proof -
  note fl = submit_flags(1) [OF assms(1,2), of env]
  from assms(4) consider
      (lookup) "lookupResult env = Some e" "rethrown e"
    | (confirmed) "lookupResult env = None" "confirmResult env" "pushResult env = Inl e"
    | (swallowed) e' where "lookupResult env = Some e'" "\<not> rethrown e'" "pushResult env = Inl e"
    by auto
  then show ?thesis
  proof cases
    case lookup
    have "trace (handleSubmit env s) =
        trace s @ [PreventDefault, ReposGet (trim tok) (login u) (repoName s)] @
          [ConsoleErrorPush e, ToastError pushFailedMessage]"
      using submit_lookup_rethrown [OF assms(1,2) lookup] by simp
    moreover have "showSuccessDialog (handleSubmit env s) = showSuccessDialog s"
      using submit_lookup_rethrown [OF assms(1,2) lookup] by simp
    moreover have "\<forall>m. ToastError m \<notin> set [PreventDefault, ReposGet (trim tok) (login u) (repoName s)]"
      by simp
    ultimately show ?thesis
      using fl by blast
  next
    case confirmed
    have "trace (handleSubmit env s) =
        trace s @ [PreventDefault, ReposGet (trim tok) (login u) (repoName s),
                   WindowConfirm (confirmMessage (repoName s)),
                   OnPush (repoName s) (login u) tok (isPrivate s)] @
          [ConsoleErrorPush e, ToastError pushFailedMessage]"
      using submit_confirmed [OF assms(1,2) confirmed(1,2)] confirmed(3) by simp
    moreover have "showSuccessDialog (handleSubmit env s) = showSuccessDialog s"
      by (rule submit_failed_flags [OF assms(1,2) confirmed(3)])
    moreover have "\<forall>m. ToastError m \<notin> set [PreventDefault, ReposGet (trim tok) (login u) (repoName s),
                   WindowConfirm (confirmMessage (repoName s)),
                   OnPush (repoName s) (login u) tok (isPrivate s)]"
      by simp
    ultimately show ?thesis
      using fl by blast
  next
    case swallowed
    have "trace (handleSubmit env s) =
        trace s @ [PreventDefault, ReposGet (trim tok) (login u) (repoName s),
                   OnPush (repoName s) (login u) tok (isPrivate s)] @
          [ConsoleErrorPush e, ToastError pushFailedMessage]"
      using submit_lookup_swallowed [OF assms(1,2) swallowed(1,2)] swallowed(3) by simp
    moreover have "showSuccessDialog (handleSubmit env s) = showSuccessDialog s"
      by (rule submit_failed_flags [OF assms(1,2) swallowed(3)])
    moreover have "\<forall>m. ToastError m \<notin> set [PreventDefault, ReposGet (trim tok) (login u) (repoName s),
                   OnPush (repoName s) (login u) tok (isPrivate s)]"
      by simp
    ultimately show ?thesis
      using fl by blast
  qed
qed

theorem remote_failure_gives_one_generic_toast_witness:
  "credentialOf (storage (demoDialog demoToken (js ''demo''))) = Some (demoToken, demoUser)
   \<and> trim (repoName (demoDialog demoToken (js ''demo''))) \<noteq> []
   \<and> NonError \<noteq> ErrorObject (Some 401)
   \<and> pushResult (demoEnv (Some (ErrorObject (Some 404))) False (Inl NonError)) = Inl NonError
   \<and> (\<exists>pre. trace (handleSubmit (demoEnv (Some (ErrorObject (Some 404))) False (Inl NonError))
                 (demoDialog demoToken (js ''demo'')))
              = pre @ [ConsoleErrorPush NonError, ToastError pushFailedMessage])
   \<and> \<not> showSuccessDialog (handleSubmit (demoEnv (Some (ErrorObject (Some 404))) False (Inl NonError))
                 (demoDialog demoToken (js ''demo'')))"
proof -
  have c: "credentialOf (storage (demoDialog demoToken (js ''demo''))) = Some (demoToken, demoUser)"
    by (simp add: demo_credential demoToken_nonempty)
  have n: "trim (repoName (demoDialog demoToken (js ''demo''))) \<noteq> []"
    by (simp add: demo_fields trim_demo js_nonempty)
  have p: "pushResult (demoEnv (Some (ErrorObject (Some 404))) False (Inl NonError)) = Inl NonError"
    by (simp add: demoEnv_fields)
  have f: "(lookupResult (demoEnv (Some (ErrorObject (Some 404))) False (Inl NonError)) = Some NonError
             \<and> rethrown NonError)
         \<or> (((lookupResult (demoEnv (Some (ErrorObject (Some 404))) False (Inl NonError)) = None
                \<and> confirmResult (demoEnv (Some (ErrorObject (Some 404))) False (Inl NonError)))
               \<or> (\<exists>e'. lookupResult (demoEnv (Some (ErrorObject (Some 404))) False (Inl NonError)) = Some e'
                      \<and> \<not> rethrown e'))
             \<and> pushResult (demoEnv (Some (ErrorObject (Some 404))) False (Inl NonError)) = Inl NonError)"
    by (simp add: demoEnv_fields)
  have a: "NonError \<noteq> ErrorObject (Some 401)"
    by simp
  from remote_failure_gives_one_generic_toast [OF c n a f]
  obtain pre where
    t: "trace (handleSubmit (demoEnv (Some (ErrorObject (Some 404))) False (Inl NonError))
                 (demoDialog demoToken (js ''demo'')))
          = pre @ [ConsoleErrorPush NonError, ToastError pushFailedMessage]"
    and d: "showSuccessDialog (handleSubmit (demoEnv (Some (ErrorObject (Some 404))) False (Inl NonError))
                 (demoDialog demoToken (js ''demo'')))
          = showSuccessDialog (demoDialog demoToken (js ''demo''))"
    by (auto simp: demo_fields)
  from d have d': "\<not> showSuccessDialog (handleSubmit (demoEnv (Some (ErrorObject (Some 404))) False (Inl NonError))
                 (demoDialog demoToken (js ''demo'')))"
    by (simp add: demoDialog_def)
  from c n a p t d' show ?thesis
    by blast
qed

text \<open>
  C4 as stated fails: a push rejected with status 403 (the remote refuses the request)
  and a push rejected with status 503 (the remote is unavailable) end with the same
  toast.
\<close>

theorem distinct_failures_share_one_message:
  "trace (handleSubmit (demoEnv (Some (ErrorObject (Some 404))) False (Inl (ErrorObject (Some 403))))
            (demoDialog demoToken (js ''demo'')))
     = [PreventDefault, ReposGet demoToken (js ''octocat'') (js ''demo''),
        OnPush (js ''demo'') (js ''octocat'') demoToken True,
        ConsoleErrorPush (ErrorObject (Some 403)), ToastError pushFailedMessage]
   \<and> trace (handleSubmit (demoEnv (Some (ErrorObject (Some 404))) False (Inl (ErrorObject (Some 503))))
            (demoDialog demoToken (js ''demo'')))
     = [PreventDefault, ReposGet demoToken (js ''octocat'') (js ''demo''),
        OnPush (js ''demo'') (js ''octocat'') demoToken True,
        ConsoleErrorPush (ErrorObject (Some 503)), ToastError pushFailedMessage]"
proof -
  have c: "credentialOf (storage (demoDialog demoToken (js ''demo''))) = Some (demoToken, demoUser)"
    by (simp add: demo_credential demoToken_nonempty)
  have n: "trim (repoName (demoDialog demoToken (js ''demo''))) \<noteq> []"
    by (simp add: demo_fields trim_demo js_nonempty)
  have r: "\<not> rethrown (ErrorObject (Some 404))"
    by simp
  show ?thesis
    using submit_lookup_swallowed [OF c n _ r,
            of "demoEnv (Some (ErrorObject (Some 404))) False (Inl (ErrorObject (Some 403)))"]
          submit_lookup_swallowed [OF c n _ r,
            of "demoEnv (Some (ErrorObject (Some 404))) False (Inl (ErrorObject (Some 503)))"]
    by (simp add: demo_fields demoEnv_fields trim_demoToken)
qed

subsection \<open>Authentication failures and blank tokens\<close>

text \<open>
  In \<open>fetchRecentRepos\<close> a response with status 401 shows the toast that the token has
  expired and removes the stored connection.
\<close>

lemma fetchRecentRepos_401_clears_connection:
  assumes "trim tok \<noteq> []" and "status r = 401"
  shows "getLocalStorage (fetchRecentRepos (Inr r) tok s) = None
         \<and> last (trace (fetchRecentRepos (Inr r) tok s)) = ToastError tokenExpiredMessage"
proof -
  from assms(1) have t: "tok \<noteq> []"
    by (auto simp: trim_def)
  from assms(2) have o: "\<not> ok r"
    by (simp add: ok_def)
  from assms t o show ?thesis
    by (simp add: fetchRecentRepos_def tell_def getLocalStorage_def Let_def split: option.splits)
qed

text \<open>
  C3. In \<open>handleSubmit\<close> a lookup rejected with status 401 ends in the general catch
  clause: the toast is the general one and the stored connection is still there.
\<close>

theorem submit_401_keeps_stored_connection:
  "trace (handleSubmit (demoEnv (Some (ErrorObject (Some 401))) False (Inr (js ''url'')))
            (demoDialog demoToken (js ''demo'')))
     = [PreventDefault, ReposGet demoToken (js ''octocat'') (js ''demo''),
        ConsoleErrorPush (ErrorObject (Some 401)), ToastError pushFailedMessage]
   \<and> getLocalStorage (handleSubmit (demoEnv (Some (ErrorObject (Some 401))) False (Inr (js ''url'')))
            (demoDialog demoToken (js ''demo'')))
     = Some \<lparr>user = Some demoUser, token = Some demoToken\<rparr>"
proof -
  have c: "credentialOf (storage (demoDialog demoToken (js ''demo''))) = Some (demoToken, demoUser)"
    by (simp add: demo_credential demoToken_nonempty)
  have n: "trim (repoName (demoDialog demoToken (js ''demo''))) \<noteq> []"
    by (simp add: demo_fields trim_demo js_nonempty)
  have r: "rethrown (ErrorObject (Some 401))"
    by simp
  show ?thesis
    using submit_lookup_rethrown [OF c n _ r,
            of "demoEnv (Some (ErrorObject (Some 401))) False (Inr (js ''url''))"]
    by (simp add: demo_fields demoEnv_fields trim_demoToken getLocalStorage_def)
qed

text \<open>
  A missing connection, a missing token and an empty token stop the handler at its
  first check, before any remote call.
\<close>

lemma submit_blocked_without_token:
  assumes "storage s = None
           \<or> (\<exists>c. storage s = Some c \<and> (token c = None \<or> token c = Some []))"
  shows "handleSubmit env s =
           s\<lparr>trace := trace s @ [PreventDefault, ToastError connectFirstMessage]\<rparr>"
proof -
  from assms have "credentialOf (storage s) = None"
    by auto
  then show ?thesis
    by (rule submit_without_credential)
qed

text \<open>
  C5. A stored token of three spaces passes the first check: the lookup is made with
  the empty string as \<open>auth\<close> and \<open>onPush\<close> is called with the blank token.
\<close>

theorem blank_token_is_not_blocked:
  "trace (handleSubmit (demoEnv (Some (ErrorObject (Some 404))) False (Inr (js ''url'')))
            (demoDialog (js ''   '') (js ''demo'')))
     = [PreventDefault, ReposGet [] (js ''octocat'') (js ''demo''),
        OnPush (js ''demo'') (js ''octocat'') (js ''   '') True]"
proof -
  have c: "credentialOf (storage (demoDialog (js ''   '') (js ''demo''))) = Some (js ''   '', demoUser)"
    by (simp add: demo_credential js_nonempty)
  have n: "trim (repoName (demoDialog (js ''   '') (js ''demo''))) \<noteq> []"
    by (simp add: demo_fields trim_demo js_nonempty)
  have r: "\<not> rethrown (ErrorObject (Some 404))"
    by simp
  show ?thesis
    using submit_lookup_swallowed [OF c n _ r,
            of "demoEnv (Some (ErrorObject (Some 404))) False (Inr (js ''url''))"]
    by (simp add: demo_fields demoEnv_fields trim_blank)
qed

subsection \<open>What the logs and the screen show of the token\<close>

lemma trim_Nil: "trim [] = []"
  by (simp add: trim_def)

lemma auth_header_prefix: "take 10 (js ''token '' @ t) = js ''token '' @ take 4 t"
  by (simp add: js_def)

lemma prefix_empty:
  assumes "take 4 (trim t1) = take 4 (trim t2)"
  shows "(trim t1 = []) = (trim t2 = [])"
  using assms by (metis take_eq_Nil zero_neq_numeral)

lemmas fetch_defs = fetchRecentRepos_def fetchCatch_def tell_def getLocalStorage_def Let_def
  observable_def substring0_def auth_header_prefix

lemma fetch_observable_blank:
  assumes "trim t1 = []" and "trim t2 = []"
  shows "observable (fetchRecentRepos r t1 (s\<lparr>storage := a\<rparr>)) =
         observable (fetchRecentRepos r t2 (s\<lparr>storage := b\<rparr>))"
  using assms by (simp add: fetchRecentRepos_def tell_def observable_def)

lemma fetch_observable_rejected:
  assumes "take 4 (trim t1) = take 4 (trim t2)"
    and "trim t1 \<noteq> []" "trim t2 \<noteq> []" "t1 \<noteq> []" "t2 \<noteq> []"
  shows "observable (fetchRecentRepos (Inl e) t1 (s\<lparr>storage := a\<rparr>)) =
         observable (fetchRecentRepos (Inl e) t2 (s\<lparr>storage := b\<rparr>))"
  using assms(2-) by (simp add: fetch_defs assms(1) del: take_append)

lemma fetch_observable_ok:
  assumes "take 4 (trim t1) = take 4 (trim t2)"
    and "trim t1 \<noteq> []" "trim t2 \<noteq> []" "t1 \<noteq> []" "t2 \<noteq> []"
    and "ok response"
  shows "observable (fetchRecentRepos (Inr response) t1 (s\<lparr>storage := a\<rparr>)) =
         observable (fetchRecentRepos (Inr response) t2 (s\<lparr>storage := b\<rparr>))"
  using assms(2-)
  by (cases "json response") (simp_all add: fetch_defs assms(1) del: take_append)

lemma fetch_observable_failed:
  assumes "take 4 (trim t1) = take 4 (trim t2)"
    and "trim t1 \<noteq> []" "trim t2 \<noteq> []" "t1 \<noteq> []" "t2 \<noteq> []"
    and "\<not> ok response" "status response \<noteq> 401"
  shows "observable (fetchRecentRepos (Inr response) t1 (s\<lparr>storage := a\<rparr>)) =
         observable (fetchRecentRepos (Inr response) t2 (s\<lparr>storage := b\<rparr>))"
  using assms(2-)
  by (cases "json response") (simp_all add: fetch_defs assms(1) del: take_append)

lemma fetch_observable_401_stored:
  assumes "take 4 (trim t1) = take 4 (trim t2)"
    and "trim t1 \<noteq> []" "trim t2 \<noteq> []" "t1 \<noteq> []" "t2 \<noteq> []"
    and "\<not> ok response" "status response = 401"
  shows "observable (fetchRecentRepos (Inr response) t1 (s\<lparr>storage := Some x\<rparr>)) =
         observable (fetchRecentRepos (Inr response) t2 (s\<lparr>storage := Some y\<rparr>))"
  using assms(2-)
  by (cases "json response") (simp_all add: fetch_defs assms(1) del: take_append)

lemma fetch_observable_401_absent:
  assumes "take 4 (trim t1) = take 4 (trim t2)"
    and "trim t1 \<noteq> []" "trim t2 \<noteq> []" "t1 \<noteq> []" "t2 \<noteq> []"
    and "\<not> ok response" "status response = 401"
  shows "observable (fetchRecentRepos (Inr response) t1 (s\<lparr>storage := None\<rparr>)) =
         observable (fetchRecentRepos (Inr response) t2 (s\<lparr>storage := None\<rparr>))"
  using assms(2-)
  by (cases "json response") (simp_all add: fetch_defs assms(1) del: take_append)

lemma fetchRecentRepos_observable:
  assumes p: "take 4 (trim t1) = take 4 (trim t2)" and "(a = None) = (b = None)"
  shows "observable (fetchRecentRepos r t1 (s\<lparr>storage := a\<rparr>)) =
         observable (fetchRecentRepos r t2 (s\<lparr>storage := b\<rparr>))"
proof (cases "trim t1 = []")
  case True
  with prefix_empty [OF p] have "trim t2 = []"
    by simp
  with True show ?thesis
    by (rule fetch_observable_blank)
next
  case False
  with prefix_empty [OF p] have n2: "trim t2 \<noteq> []"
    by simp
  from False have m1: "t1 \<noteq> []"
    by (auto simp: trim_Nil)
  from n2 have m2: "t2 \<noteq> []"
    by (auto simp: trim_Nil)
  note run = p False n2 m1 m2
  show ?thesis
  proof (cases r)
    case (Inl e)
    show ?thesis
      unfolding Inl by (rule fetch_observable_rejected [OF run])
  next
    case (Inr response)
    show ?thesis
    proof (cases "ok response")
      case True
      show ?thesis
        unfolding Inr by (rule fetch_observable_ok [OF run True])
    next
      case notOk: False
      show ?thesis
      proof (cases "status response = 401")
        case False
        show ?thesis
          unfolding Inr by (rule fetch_observable_failed [OF run notOk False])
      next
        case True
        show ?thesis
        proof (cases a)
          case None
          with assms(2) have "b = None"
            by simp
          with None show ?thesis
            unfolding Inr by (simp only: fetch_observable_401_absent [OF run notOk True])
        next
          case (Some x)
          with assms(2) obtain y where "b = Some y"
            by auto
          with Some show ?thesis
            unfolding Inr by (simp only: fetch_observable_401_stored [OF run notOk True])
        qed
      qed
    qed
  qed
qed

lemma storage_userState_commute:
  "s\<lparr>storage := a, userState := b\<rparr> = s\<lparr>userState := b, storage := a\<rparr>"
  by (cases s) simp

lemma onOpen_observable:
  assumes "take 4 (trim t1) = take 4 (trim t2)" and "(t1 = []) = (t2 = [])"
  shows "observable (onOpen r isOpen (s\<lparr>storage := Some (c\<lparr>token := Some t1\<rparr>)\<rparr>)) =
         observable (onOpen r isOpen (s\<lparr>storage := Some (c\<lparr>token := Some t2\<rparr>)\<rparr>))"
proof (cases "isOpen \<and> t1 \<noteq> [] \<and> user c \<noteq> None \<and> trim t1 \<noteq> []")
  case True
  with assms prefix_empty [OF assms(1)] have 2: "t2 \<noteq> []" "trim t2 \<noteq> []"
    by simp_all
  from True obtain u where u: "user c = Some u"
    by auto
  have o: "onOpen r isOpen (s\<lparr>storage := Some (c\<lparr>token := Some t\<rparr>)\<rparr>) =
      fetchRecentRepos r t (s\<lparr>userState := Some u\<rparr>\<lparr>storage := Some (c\<lparr>token := Some t\<rparr>)\<rparr>)"
    if "t \<noteq> []" "trim t \<noteq> []" for t
    using that True u
    by (simp add: onOpen_def getLocalStorage_def Let_def storage_userState_commute)
  from True have o1: "onOpen r isOpen (s\<lparr>storage := Some (c\<lparr>token := Some t1\<rparr>)\<rparr>) =
      fetchRecentRepos r t1 (s\<lparr>userState := Some u\<rparr>\<lparr>storage := Some (c\<lparr>token := Some t1\<rparr>)\<rparr>)"
    by (intro o) simp_all
  from 2 have o2: "onOpen r isOpen (s\<lparr>storage := Some (c\<lparr>token := Some t2\<rparr>)\<rparr>) =
      fetchRecentRepos r t2 (s\<lparr>userState := Some u\<rparr>\<lparr>storage := Some (c\<lparr>token := Some t2\<rparr>)\<rparr>)"
    by (intro o)
  show ?thesis
    unfolding o1 o2 by (rule fetchRecentRepos_observable [OF assms(1)]) simp
next
  case False
  with assms prefix_empty [OF assms(1)] show ?thesis
    by (auto simp: onOpen_def getLocalStorage_def Let_def observable_def split: option.splits)
qed
lemma handleSubmit_observable:
  assumes "(t1 = []) = (t2 = [])"
  shows "observable (handleSubmit env (s\<lparr>storage := Some (c\<lparr>token := Some t1\<rparr>)\<rparr>)) =
         observable (handleSubmit env (s\<lparr>storage := Some (c\<lparr>token := Some t2\<rparr>)\<rparr>))"
proof (cases "t1 = [] \<or> user c = None")
  case True
  with assms show ?thesis
    by (auto simp: submit_defs observable_def)
next
  case False
  with assms obtain u where u: "user c = Some u" and n: "t1 \<noteq> []" "t2 \<noteq> []"
    by auto
  show ?thesis
  proof (cases "trim (repoName s) = []")
    case True
    with u n show ?thesis
      by (simp add: submit_defs observable_def)
  next
    case named: False
    show ?thesis
    proof (cases "lookupResult env")
      case None
      with named u n show ?thesis
        by (cases "confirmResult env"; cases "pushResult env")
          (simp_all add: submit_defs observable_def)
    next
      case (Some e)
      with named u n show ?thesis
        by (cases "rethrown e"; cases "pushResult env")
          (simp_all add: submit_defs observable_def)
    qed
  qed
qed

text \<open>
  C8. Take two runs that differ only in the stored token, the two tokens agreeing on
  the first four code units of their trimmed forms and on being empty. Then the
  effect on opening the dialog, \<open>fetchRecentRepos\<close> called with the stored token, and
  \<open>handleSubmit\<close> leave the same React state and write and show exactly the same:
  nothing of the token beyond that prefix reaches a log, a toast, a dialog or the
  rendered state.
\<close>

theorem logs_depend_on_token_prefix_only:
  assumes "take 4 (trim t1) = take 4 (trim t2)" and "(t1 = []) = (t2 = [])"
  shows "observable (onOpen r isOpen (s\<lparr>storage := Some (c\<lparr>token := Some t1\<rparr>)\<rparr>)) =
           observable (onOpen r isOpen (s\<lparr>storage := Some (c\<lparr>token := Some t2\<rparr>)\<rparr>))
         \<and> observable (fetchRecentRepos r t1 (s\<lparr>storage := Some (c\<lparr>token := Some t1\<rparr>)\<rparr>)) =
           observable (fetchRecentRepos r t2 (s\<lparr>storage := Some (c\<lparr>token := Some t2\<rparr>)\<rparr>))
         \<and> observable (handleSubmit env (s\<lparr>storage := Some (c\<lparr>token := Some t1\<rparr>)\<rparr>)) =
           observable (handleSubmit env (s\<lparr>storage := Some (c\<lparr>token := Some t2\<rparr>)\<rparr>))"
proof (intro conjI)
  show "observable (onOpen r isOpen (s\<lparr>storage := Some (c\<lparr>token := Some t1\<rparr>)\<rparr>)) =
        observable (onOpen r isOpen (s\<lparr>storage := Some (c\<lparr>token := Some t2\<rparr>)\<rparr>))"
    by (rule onOpen_observable [OF assms])
  show "observable (fetchRecentRepos r t1 (s\<lparr>storage := Some (c\<lparr>token := Some t1\<rparr>)\<rparr>)) =
        observable (fetchRecentRepos r t2 (s\<lparr>storage := Some (c\<lparr>token := Some t2\<rparr>)\<rparr>))"
    by (rule fetchRecentRepos_observable [OF assms(1)]) simp
  show "observable (handleSubmit env (s\<lparr>storage := Some (c\<lparr>token := Some t1\<rparr>)\<rparr>)) =
        observable (handleSubmit env (s\<lparr>storage := Some (c\<lparr>token := Some t2\<rparr>)\<rparr>))"
    by (rule handleSubmit_observable [OF assms(2)])
qed

lemma unauthorized_run:
  assumes "trim t = t" and "t \<noteq> []"
  shows "trace (onOpen (Inr unauthorized) True (demoDialog t (js ''demo''))) =
           [ConsoleLogToken (take 4 t @ js ''...'') (js ''token '' @ take 4 t @ js ''...''),
            Fetch reposUrl (js ''token '' @ t),
            ConsoleErrorApi 401 (js ''Unauthorized'') (JObject []) reposUrl (take 4 t),
            ToastError tokenExpiredMessage]"
  using assms
  by (simp add: onOpen_def fetchRecentRepos_def tell_def getLocalStorage_def Let_def
        demoDialog_def unauthorized_def ok_def substring0_def auth_header_prefix
        del: take_append)

lemma demoDialog_stored:
  "demoDialog t r =
     (demoDialog [] r)\<lparr>storage := Some (\<lparr>user = Some demoUser, token = None\<rparr>\<lparr>token := Some t\<rparr>)\<rparr>"
  by (simp add: demoDialog_def)

theorem logs_depend_on_token_prefix_only_witness:
  "take 4 (trim (js ''ghp_AAAA'')) = take 4 (trim (js ''ghp_BBBB''))
   \<and> (js ''ghp_AAAA'' = []) = (js ''ghp_BBBB'' = [])
   \<and> js ''ghp_AAAA'' \<noteq> js ''ghp_BBBB''
   \<and> observable (onOpen (Inr unauthorized) True (demoDialog (js ''ghp_AAAA'') (js ''demo''))) =
     observable (onOpen (Inr unauthorized) True (demoDialog (js ''ghp_BBBB'') (js ''demo'')))
   \<and> trace (observable (onOpen (Inr unauthorized) True (demoDialog (js ''ghp_AAAA'') (js ''demo'')))) =
       [ConsoleLogToken (js ''ghp_...'') (js ''token ghp_...''),
        ConsoleErrorApi 401 (js ''Unauthorized'') (JObject []) reposUrl (js ''ghp_''),
        ToastError tokenExpiredMessage]"
proof -
  have p: "take 4 (trim (js ''ghp_AAAA'')) = take 4 (trim (js ''ghp_BBBB''))"
    by (simp add: js_def trim_def isWhiteSpace_def)
  have n: "(js ''ghp_AAAA'' = []) = (js ''ghp_BBBB'' = [])"
    by (simp add: js_def)
  have d: "js ''ghp_AAAA'' \<noteq> js ''ghp_BBBB''"
    by (simp add: js_def)
  from logs_depend_on_token_prefix_only
         [where r = "Inr unauthorized" and isOpen = True and s = "demoDialog [] (js ''demo'')"
            and c = "\<lparr>user = Some demoUser, token = None\<rparr>", OF p n, THEN conjunct1]
  have e: "observable (onOpen (Inr unauthorized) True (demoDialog (js ''ghp_AAAA'') (js ''demo''))) =
     observable (onOpen (Inr unauthorized) True (demoDialog (js ''ghp_BBBB'') (js ''demo'')))"
    by (simp only: demoDialog_stored [symmetric])
  have ta: "trim (js ''ghp_AAAA'') = js ''ghp_AAAA''"
    by (simp add: js_def trim_def isWhiteSpace_def)
  have l: "trace (observable (onOpen (Inr unauthorized) True (demoDialog (js ''ghp_AAAA'') (js ''demo'')))) =
       [ConsoleLogToken (js ''ghp_...'') (js ''token ghp_...''),
        ConsoleErrorApi 401 (js ''Unauthorized'') (JObject []) reposUrl (js ''ghp_''),
        ToastError tokenExpiredMessage]"
    by (simp add: observable_def unauthorized_run [OF ta js_nonempty]) (simp add: js_def)
  from p n d e l show ?thesis
    by blast
qed

text \<open>
  A trimmed token of more than four code units is not fixed by what a run shows:
  the token with one more letter at its end is another trimmed token, and the runs
  with the two tokens show the same.
\<close>

lemma trim_prefix: "\<exists>w. dropWhile isWhiteSpace t = trim t @ w"
proof -
  have "rev (dropWhile isWhiteSpace t) =
      takeWhile isWhiteSpace (rev (dropWhile isWhiteSpace t)) @
      dropWhile isWhiteSpace (rev (dropWhile isWhiteSpace t))"
    by simp
  then have "dropWhile isWhiteSpace t =
      trim t @ rev (takeWhile isWhiteSpace (rev (dropWhile isWhiteSpace t)))"
    unfolding trim_def by (metis rev_append rev_rev_ident)
  then show ?thesis
    by blast
qed

lemma trim_starts_black:
  assumes "trim t \<noteq> []"
  shows "\<not> isWhiteSpace (hd (trim t))"
proof -
  from trim_prefix obtain w where w: "dropWhile isWhiteSpace t = trim t @ w"
    by blast
  with assms have "dropWhile isWhiteSpace t \<noteq> []"
    by simp
  then have "\<not> isWhiteSpace (hd (dropWhile isWhiteSpace t))"
    by (rule hd_dropWhile)
  with w assms show ?thesis
    by simp
qed

lemma trim_extended:
  assumes "trim t \<noteq> []"
  shows "trim (trim t @ [0x41]) = trim t @ [0x41]"
proof -
  from assms obtain x xs where x: "trim t = x # xs"
    by (cases "trim t") auto
  with trim_starts_black [OF assms] have "\<not> isWhiteSpace x"
    by simp
  then have "dropWhile isWhiteSpace (trim t @ [0x41]) = trim t @ [0x41]"
    by (simp add: x)
  moreover have "\<not> isWhiteSpace 0x41"
    by (simp add: isWhiteSpace_def)
  ultimately show ?thesis
    by (simp add: trim_def [of "trim t @ [0x41]"])
qed

lemma longer_token_is_not_determined:
  assumes "trim t = t" and "4 < length t"
  shows "trim (t @ [0x41]) = t @ [0x41] \<and> t @ [0x41] \<noteq> t
         \<and> observable (onOpen r isOpen (s\<lparr>storage := Some (c\<lparr>token := Some (t @ [0x41])\<rparr>)\<rparr>)) =
           observable (onOpen r isOpen (s\<lparr>storage := Some (c\<lparr>token := Some t\<rparr>)\<rparr>))
         \<and> observable (handleSubmit env (s\<lparr>storage := Some (c\<lparr>token := Some (t @ [0x41])\<rparr>)\<rparr>)) =
           observable (handleSubmit env (s\<lparr>storage := Some (c\<lparr>token := Some t\<rparr>)\<rparr>))"
proof -
  from assms have n: "trim t \<noteq> []"
    by auto
  from trim_extended [OF n] assms(1) have e: "trim (t @ [0x41]) = t @ [0x41]"
    by simp
  from assms have p: "take 4 (trim (t @ [0x41])) = take 4 (trim t)"
    by (simp add: e)
  from assms(2) have m: "(t @ [0x41] = []) = (t = [])"
    by auto
  from e onOpen_observable [OF p m] handleSubmit_observable [OF m] show ?thesis
    by simp
qed

end
